theory Spec2Isabelle
  imports Main "HOL-Library.Word" "HOL-Library.Sublist"
begin

unbundle bit_operations_syntax

section \<open>The Python binding of the binary KORE reader (bindings/python/ast.cpp)\<close>

text \<open>
  The binding file holds one function with logic of its own, \<open>read_pattern_from_file\<close>
  (lines 73-113), and the two lambdas behind \<open>Pattern.serialize\<close> and
  \<open>Pattern.deserialize\<close> (lines 289-310). Everything else forwards to the kllvm library
  (\<open>kllvm/binary/serializer.h\<close>, \<open>kllvm/binary/deserializer.h\<close>, \<open>kllvm/ast/AST.h\<close>),
  which is not part of the sources at hand.
\<close>

subsection \<open>Bytes and errors\<close>

type_synonym byte = "8 word"

text \<open>
  The exceptions that leave \<open>read_pattern_from_file\<close>: \<open>py::type_error\<close> (line 75),
  \<open>std::invalid_argument\<close> with one of three messages (lines 86, 96, 106), and whatever
  the library decoders raise. \<open>undefined_behaviour\<close> marks the one place where the
  function itself steps outside the C++ standard (see \<open>std_equal\<close>).
\<close>

datatype error =
    type_error string
  | invalid_argument string
  | undefined_behaviour
  | decoder_error string

definition not_file_like :: error where
  "not_file_like = type_error ''Argument to read_from is not a file-like object''"

definition bad_magic_header :: error where
  "bad_magic_header =
     invalid_argument ''Data does not begin with the binary KORE header bytes''"

definition unsupported_version :: error where
  "unsupported_version =
     invalid_argument ''Pattern read from a file-like object must use version 1.2.0 or newer''"

definition missing_size :: error where
  "missing_size =
     invalid_argument
       ''Pattern size must be set explicitly when reading from a file-like object''"

subsection \<open>The file-like argument\<close>

text \<open>
  A Python object: it may or may not have an attribute \<open>read\<close> (\<open>py::hasattr\<close>, line 74).
  When it has one, a call \<open>read(n)\<close> returns some bytes and moves the object to a new
  state; nothing forces the number of bytes returned to be \<open>n\<close>. The state type is left
  open: an in-memory cursor and a chunked source are instances below.
  The model covers sources whose \<open>read\<close> returns a bytes object; a \<open>read\<close> that raises
  is outside it.
\<close>

record 's file_like =
  read_attr :: "('s \<Rightarrow> nat \<Rightarrow> byte list \<times> 's) option"
  py_state :: 's

text \<open>Python's \<open>io.BytesIO\<close>: a buffer and a read cursor; at the end a read comes back short.\<close>

record bytes_io =
  buf :: "byte list"
  pos :: nat

definition bytes_io_read :: "bytes_io \<Rightarrow> nat \<Rightarrow> byte list \<times> bytes_io" where
  "bytes_io_read b n =
     (take n (drop (pos b) (buf b)), b\<lparr>pos := min (pos b + n) (length (buf b))\<rparr>)"

definition BytesIO :: "byte list \<Rightarrow> bytes_io file_like" where
  "BytesIO bs = \<lparr>read_attr = Some bytes_io_read, py_state = \<lparr>buf = bs, pos = 0\<rparr>\<rparr>"

text \<open>
  The cursor of a \<open>BytesIO\<close> seen as the bytes still to be read. A source \<open>delivers\<close> a
  byte string when each \<open>read(n)\<close> returns the next \<open>n\<close> bytes of what is left (all of it
  when less is left) and leaves the rest: the contract the spec gives for a byte source,
  met by \<open>BytesIO\<close> and by a file opened for reading.
\<close>

definition bytes_io_content :: "bytes_io \<Rightarrow> byte list" where
  "bytes_io_content b = drop (pos b) (buf b)"

definition delivers :: "('s \<Rightarrow> nat \<Rightarrow> byte list \<times> 's) \<Rightarrow> ('s \<Rightarrow> byte list) \<Rightarrow> bool" where
  "delivers rd content =
     (\<forall>s n. fst (rd s n) = take n (content s) \<and> content (snd (rd s n)) = drop n (content s))"

text \<open>
  A source that delivers its data in chunks, as a raw socket or pipe does: a read returns
  what the next chunk holds, at most \<open>n\<close> bytes of it.
\<close>

fun chunk_read :: "byte list list \<Rightarrow> nat \<Rightarrow> byte list \<times> byte list list" where
  "chunk_read [] n = ([], [])"
| "chunk_read (c # cs) n = (take n c, if n < length c then drop n c # cs else cs)"

definition Chunked :: "byte list list \<Rightarrow> byte list list file_like" where
  "Chunked cs = \<lparr>read_attr = Some chunk_read, py_state = cs\<rparr>"

text \<open>An object with no \<open>read\<close> attribute (an \<open>int\<close>, say); its state is of no interest.\<close>

definition NotFileLike :: "'s \<Rightarrow> 's file_like" where
  "NotFileLike s = \<lparr>read_attr = None, py_state = s\<rparr>"

subsection \<open>The library as the binding sees it\<close>

text \<open>
  Modelled from the spec: \<open>kllvm::binary_version\<close> (kllvm/binary/version.h is not among the
  sources). The spec describes a version as a triple major.minor.patch and the gate as
  "version \<ge> 1.2.0"; the order is the lexicographic one on the three components.
\<close>

datatype binary_version = binary_version (v_major: int) (v_minor: int) (v_patch: int)

definition version_less :: "binary_version \<Rightarrow> binary_version \<Rightarrow> bool" where
  "version_less a b =
     (v_major a < v_major b \<or>
      (v_major a = v_major b \<and>
        (v_minor a < v_minor b \<or> (v_minor a = v_minor b \<and> v_patch a < v_patch b))))"

text \<open>
  The parts of the library that \<open>read_pattern_from_file\<close> calls, taken as parameters:
  the constant \<open>serializer::magic_header\<close> and the decoders \<open>kllvm::detail::read_version\<close>,
  \<open>kllvm::detail::read_pattern_size_unchecked\<close> and \<open>kllvm::detail::read\<close>. A decoder
  returns its value or fails with a message. \<open>'p\<close> is what the body decoder returns.
\<close>

record 'p kllvm =
  magic_header :: "byte list"
  read_version :: "byte list \<Rightarrow> string + binary_version"
  read_pattern_size_unchecked :: "byte list \<Rightarrow> string + 64 word"
  detail_read :: "byte list \<Rightarrow> binary_version \<Rightarrow> string + 'p"

subsection \<open>read_pattern_from_file\<close>

text \<open>
  \<open>std::equal(first1, last1, first2)\<close>, the three-iterator form of line 85: it walks the
  first range and compares it with what starts at \<open>first2\<close>, stops at the first
  difference, and never looks at the length of the second range. \<open>None\<close>: the walk runs
  past the end of the second range, which the standard leaves undefined.
\<close>

fun std_equal :: "byte list \<Rightarrow> byte list \<Rightarrow> bool option" where
  "std_equal [] ys = Some True"
| "std_equal (x # xs) [] = None"
| "std_equal (x # xs) (y # ys) = (if x = y then std_equal xs ys else Some False)"

text \<open>
  Lines 73-113. The four reads are the calls of the lambda \<open>read\<close> of line 79, which
  converts what the source returns to a \<open>std::string\<close> and checks nothing. The result
  comes with the state the source is left in.
\<close>

definition read_pattern_from_file :: "'p kllvm \<Rightarrow> 's file_like \<Rightarrow> (error + 'p) \<times> 's" where
  "read_pattern_from_file L file_like =
     (case read_attr file_like of
        None \<Rightarrow> (Inl not_file_like, py_state file_like)
      | Some rd \<Rightarrow>
          (case rd (py_state file_like) 5 of (header, s1) \<Rightarrow>
            (case std_equal header (magic_header L) of
               None \<Rightarrow> (Inl undefined_behaviour, s1)
             | Some False \<Rightarrow> (Inl bad_magic_header, s1)
             | Some True \<Rightarrow>
                 (case rd s1 6 of (version_bytes, s2) \<Rightarrow>
                   (case read_version L version_bytes of
                      Inl msg \<Rightarrow> (Inl (decoder_error msg), s2)
                    | Inr version \<Rightarrow>
                        if version_less version (binary_version 1 2 0)
                        then (Inl unsupported_version, s2)
                        else
                          (case rd s2 8 of (size_bytes, s3) \<Rightarrow>
                            (case read_pattern_size_unchecked L size_bytes of
                               Inl msg \<Rightarrow> (Inl (decoder_error msg), s3)
                             | Inr sz \<Rightarrow>
                                 if sz = 0 then (Inl missing_size, s3)
                                 else
                                   (case rd s3 (unat sz) of (pattern_bytes, s4) \<Rightarrow>
                                     (case detail_read L pattern_bytes version of
                                        Inl msg \<Rightarrow> (Inl (decoder_error msg), s4)
                                      | Inr p \<Rightarrow> (Inr p, s4))))))))))"

section \<open>The data model and the codec behind the binding\<close>

subsection \<open>Sorts, symbols and patterns\<close>

text \<open>
  The classes the binding exposes (lines 200-333), as values. A \<open>std::string\<close> is a list of
  bytes. \<open>SortCategory\<close> lists the enum of lines 202-214; \<open>ValueType\<close> pairs a category
  with a bit width (lines 216-222); the category \<open>Int\<close> is written \<open>IntCategory\<close>. A \<open>Symbol\<close> has a name, argument sorts, formal
  argument sorts and, once \<open>add_sort\<close> was called, a sort (lines 257-272). A pattern is
  a composite (a symbol applied to patterns), a variable with its sort, or a string
  (lines 283-333).
\<close>

type_synonym name = "byte list"

datatype SortCategory =
    Uncomputed | Map | RangeMap | List | Set | IntCategory | Float | StringBuffer | Bool
  | Symbol | Variable | MInt

datatype ValueType = ValueType (cat: SortCategory) (bits: "64 word")

datatype sort =
    SortVariable name
  | CompositeSort name ValueType "sort list"

datatype symbol =
  KORESymbol (symbol_name: name) (arguments: "sort list") (formal_arguments: "sort list")
    (symbol_sort: "sort option")

datatype pattern =
    CompositePattern symbol "pattern list"
  | VariablePattern name sort
  | StringPattern "byte list"

definition bytes_of :: "string \<Rightarrow> byte list" where
  "bytes_of s = map of_char s"

subsection \<open>Fixed-width little-endian integers\<close>

text \<open>
  Modelled from the spec: the integer fields of the framing (the serializer's
  \<open>to_bytes\<close> and the deserializer's \<open>from_bytes\<close> are not among the sources). The spec
  asks for one byte order to be picked; this is little-endian, two bytes for each version
  component and eight for the size.
\<close>

fun le_bytes :: "nat \<Rightarrow> nat \<Rightarrow> byte list" where
  "le_bytes 0 n = []"
| "le_bytes (Suc k) n = of_nat (n mod 256) # le_bytes k (n div 256)"

fun le_nat :: "byte list \<Rightarrow> nat" where
  "le_nat [] = 0"
| "le_nat (b # bs) = unat b + 256 * le_nat bs"

definition to_bytes :: "64 word \<Rightarrow> byte list" where
  "to_bytes w = le_bytes 8 (unat w)"

definition from_bytes :: "byte list \<Rightarrow> 64 word" where
  "from_bytes bs = of_nat (le_nat bs)"

definition int16_bytes :: "int \<Rightarrow> byte list" where
  "int16_bytes i = le_bytes 2 (unat (word_of_int i :: 16 word))"

definition read_int16 :: "byte list \<Rightarrow> int" where
  "read_int16 bs = sint (of_nat (le_nat bs) :: 16 word)"

subsection \<open>Framing: magic header, version, size\<close>

text \<open>
  Modelled from the spec: \<open>serializer::magic_header\<close>, \<open>detail::read_version\<close> and
  \<open>detail::read_pattern_size_unchecked\<close> (kllvm/binary/serializer.h and deserializer.h
  are not among the sources). The spec fixes a 5-byte magic constant, a 6-byte version
  record of three components, and an 8-byte unsigned size; a version or size cut short is
  a format error ("truncated version").
\<close>

definition magic_header_impl :: "byte list" where
  "magic_header_impl = [0x7F, 0x4B, 0x4F, 0x52, 0x45]"

definition emit_version :: "binary_version \<Rightarrow> byte list" where
  "emit_version v = int16_bytes (v_major v) @ int16_bytes (v_minor v) @ int16_bytes (v_patch v)"

definition read_version_impl :: "byte list \<Rightarrow> string + binary_version" where
  "read_version_impl bs =
     (if length bs < 6 then Inl ''truncated version''
      else Inr (binary_version (read_int16 (take 2 bs)) (read_int16 (take 2 (drop 2 bs)))
                  (read_int16 (take 2 (drop 4 bs)))))"

definition read_pattern_size_unchecked_impl :: "byte list \<Rightarrow> string + 64 word" where
  "read_pattern_size_unchecked_impl bs =
     (if length bs < 8 then Inl ''truncated size'' else Inr (from_bytes (take 8 bs)))"

subsection \<open>The body: encoder\<close>

text \<open>
  Modelled from the spec: the body written by \<open>KOREPattern::serialize_to\<close> and read by
  \<open>kllvm::detail::read\<close> (kllvm/ast/AST.h, serializer.h and deserializer.h are not among
  the sources). The spec describes the body as a tag byte per node kind, references into a
  table of names, a child count and the children in turn, and leaves the tags to the
  implementation. Here: a node is its tag, its fields, the number of its children and
  the children; a length or count is written seven bits to a byte, low bits first, the
  top bit set on every byte but the last; a name is written in full where it first occurs
  (tag 1, length, bytes) and as its index in the table of names seen so far afterwards
  (tag 2, index).
\<close>

function emit_length :: "nat \<Rightarrow> byte list" where
  "emit_length n =
     (if n < 128 then [of_nat n] else of_nat (n mod 128 + 128) # emit_length (n div 128))"
  by pat_completeness auto
termination
  by (relation "measure id") auto

declare emit_length.simps [simp del]

fun index_of :: "'a \<Rightarrow> 'a list \<Rightarrow> nat option" where
  "index_of x [] = None"
| "index_of x (y # ys) = (if x = y then Some 0 else map_option Suc (index_of x ys))"

definition emit_string :: "name list \<Rightarrow> name \<Rightarrow> byte list \<times> name list" where
  "emit_string tbl s =
     (case index_of s tbl of
        Some i \<Rightarrow> (2 # emit_length i, tbl)
      | None \<Rightarrow> (1 # emit_length (length s) @ s, tbl @ [s]))"

fun category_byte :: "SortCategory \<Rightarrow> byte" where
  "category_byte Uncomputed = 0"
| "category_byte Map = 1"
| "category_byte RangeMap = 2"
| "category_byte List = 3"
| "category_byte Set = 4"
| "category_byte IntCategory = 5"
| "category_byte Float = 6"
| "category_byte StringBuffer = 7"
| "category_byte Bool = 8"
| "category_byte Symbol = 9"
| "category_byte Variable = 10"
| "category_byte MInt = 11"

definition emit_value_type :: "ValueType \<Rightarrow> byte list" where
  "emit_value_type vt = category_byte (cat vt) # to_bytes (bits vt)"

fun emit_sort :: "name list \<Rightarrow> sort \<Rightarrow> byte list \<times> name list"
  and emit_sorts :: "name list \<Rightarrow> sort list \<Rightarrow> byte list \<times> name list" where
  "emit_sort tbl (SortVariable n) =
     (case emit_string tbl n of (b, t) \<Rightarrow> (6 # b, t))"
| "emit_sort tbl (CompositeSort n vt args) =
     (case emit_string tbl n of (b1, t1) \<Rightarrow>
       (case emit_sorts t1 args of (b2, t2) \<Rightarrow>
         (7 # b1 @ emit_value_type vt @ emit_length (length args) @ b2, t2)))"
| "emit_sorts tbl [] = ([], tbl)"
| "emit_sorts tbl (s # ss) =
     (case emit_sort tbl s of (b1, t1) \<Rightarrow>
       (case emit_sorts t1 ss of (b2, t2) \<Rightarrow> (b1 @ b2, t2)))"

definition emit_sort_option :: "name list \<Rightarrow> sort option \<Rightarrow> byte list \<times> name list" where
  "emit_sort_option tbl so =
     (case so of
        None \<Rightarrow> ([0], tbl)
      | Some s \<Rightarrow> (case emit_sort tbl s of (b, t) \<Rightarrow> (1 # b, t)))"

definition emit_symbol :: "name list \<Rightarrow> symbol \<Rightarrow> byte list \<times> name list" where
  "emit_symbol tbl symb =
     (case emit_string tbl (symbol_name symb) of (b1, t1) \<Rightarrow>
       (case emit_sorts t1 (arguments symb) of (b2, t2) \<Rightarrow>
         (case emit_sorts t2 (formal_arguments symb) of (b3, t3) \<Rightarrow>
           (case emit_sort_option t3 (symbol_sort symb) of (b4, t4) \<Rightarrow>
             (8 # b1 @ emit_length (length (arguments symb)) @ b2
                @ emit_length (length (formal_arguments symb)) @ b3 @ b4, t4)))))"

fun emit_pattern :: "name list \<Rightarrow> pattern \<Rightarrow> byte list \<times> name list"
  and emit_patterns :: "name list \<Rightarrow> pattern list \<Rightarrow> byte list \<times> name list" where
  "emit_pattern tbl (CompositePattern symb args) =
     (case emit_symbol tbl symb of (b1, t1) \<Rightarrow>
       (case emit_patterns t1 args of (b2, t2) \<Rightarrow>
         (4 # b1 @ emit_length (length args) @ b2, t2)))"
| "emit_pattern tbl (VariablePattern n s) =
     (case emit_string tbl n of (b1, t1) \<Rightarrow>
       (case emit_sort t1 s of (b2, t2) \<Rightarrow> (9 # b1 @ b2, t2)))"
| "emit_pattern tbl (StringPattern c) = (5 # emit_length (length c) @ c, tbl)"
| "emit_patterns tbl [] = ([], tbl)"
| "emit_patterns tbl (p # ps) =
     (case emit_pattern tbl p of (b1, t1) \<Rightarrow>
       (case emit_patterns t1 ps of (b2, t2) \<Rightarrow> (b1 @ b2, t2)))"

subsection \<open>The body: decoder\<close>

text \<open>
  Modelled from the spec: \<open>kllvm::detail::read\<close>. Each reader takes the table of names
  seen so far and the bytes left, and returns what it read with the bytes and the table
  after it; \<open>None\<close> is the spec's format error (truncated bytes, an unknown tag, a
  reference outside the table). The recursion through children is bounded by a fuel
  argument; \<open>detail_read_impl\<close> starts it with the length of the body, which is enough
  since every node takes at least its tag byte (see \<open>read_emit_pattern\<close>).
\<close>

fun read_length :: "byte list \<Rightarrow> (nat \<times> byte list) option" where
  "read_length [] = None"
| "read_length (b # bs) =
     (if unat b < 128 then Some (unat b, bs)
      else (case read_length bs of
              None \<Rightarrow> None
            | Some (n, r) \<Rightarrow> Some (unat b - 128 + 128 * n, r)))"

definition read_string :: "name list \<Rightarrow> byte list \<Rightarrow> (name \<times> byte list \<times> name list) option" where
  "read_string tbl bs =
     (case bs of
        [] \<Rightarrow> None
      | t # r \<Rightarrow>
          if t = 1 then
            (case read_length r of
               None \<Rightarrow> None
             | Some (n, r') \<Rightarrow>
                 if length r' < n then None
                 else Some (take n r', drop n r', tbl @ [take n r']))
          else if t = 2 then
            (case read_length r of
               None \<Rightarrow> None
             | Some (i, r') \<Rightarrow> if i < length tbl then Some (tbl ! i, r', tbl) else None)
          else None)"

definition read_category :: "byte \<Rightarrow> SortCategory option" where
  "read_category b =
     (if b = 0 then Some Uncomputed else if b = 1 then Some Map
      else if b = 2 then Some RangeMap else if b = 3 then Some List
      else if b = 4 then Some Set else if b = 5 then Some IntCategory
      else if b = 6 then Some Float else if b = 7 then Some StringBuffer
      else if b = 8 then Some Bool else if b = 9 then Some Symbol
      else if b = 10 then Some Variable else if b = 11 then Some MInt
      else None)"

definition read_value_type :: "byte list \<Rightarrow> (ValueType \<times> byte list) option" where
  "read_value_type bs =
     (case bs of
        [] \<Rightarrow> None
      | b # r \<Rightarrow>
          (case read_category b of
             None \<Rightarrow> None
           | Some c \<Rightarrow>
               if length r < 8 then None
               else Some (ValueType c (from_bytes (take 8 r)), drop 8 r)))"

fun read_sort :: "nat \<Rightarrow> name list \<Rightarrow> byte list \<Rightarrow> (sort \<times> byte list \<times> name list) option"
  and read_sorts ::
    "nat \<Rightarrow> nat \<Rightarrow> name list \<Rightarrow> byte list \<Rightarrow> (sort list \<times> byte list \<times> name list) option"
  where
  "read_sort 0 tbl bs = None"
| "read_sort (Suc fuel) tbl [] = None"
| "read_sort (Suc fuel) tbl (t # r) =
     (if t = 6 then
        (case read_string tbl r of
           None \<Rightarrow> None
         | Some (n, r1, t1) \<Rightarrow> Some (SortVariable n, r1, t1))
      else if t = 7 then
        (case read_string tbl r of
           None \<Rightarrow> None
         | Some (n, r1, t1) \<Rightarrow>
             (case read_value_type r1 of
                None \<Rightarrow> None
              | Some (vt, r2) \<Rightarrow>
                  (case read_length r2 of
                     None \<Rightarrow> None
                   | Some (k, r3) \<Rightarrow>
                       (case read_sorts fuel k t1 r3 of
                          None \<Rightarrow> None
                        | Some (args, r4, t4) \<Rightarrow> Some (CompositeSort n vt args, r4, t4)))))
      else None)"
| "read_sorts fuel 0 tbl bs = Some ([], bs, tbl)"
| "read_sorts fuel (Suc k) tbl bs =
     (case read_sort fuel tbl bs of
        None \<Rightarrow> None
      | Some (s, r1, t1) \<Rightarrow>
          (case read_sorts fuel k t1 r1 of
             None \<Rightarrow> None
           | Some (ss, r2, t2) \<Rightarrow> Some (s # ss, r2, t2)))"

definition read_sort_option ::
    "nat \<Rightarrow> name list \<Rightarrow> byte list \<Rightarrow> (sort option \<times> byte list \<times> name list) option" where
  "read_sort_option fuel tbl bs =
     (case bs of
        [] \<Rightarrow> None
      | t # r \<Rightarrow>
          if t = 0 then Some (None, r, tbl)
          else if t = 1 then
            (case read_sort fuel tbl r of
               None \<Rightarrow> None
             | Some (s, r1, t1) \<Rightarrow> Some (Some s, r1, t1))
          else None)"

definition read_symbol ::
    "nat \<Rightarrow> name list \<Rightarrow> byte list \<Rightarrow> (symbol \<times> byte list \<times> name list) option" where
  "read_symbol fuel tbl bs =
     (case bs of
        [] \<Rightarrow> None
      | t # r \<Rightarrow>
          if t = 8 then
            (case read_string tbl r of
               None \<Rightarrow> None
             | Some (n, r1, t1) \<Rightarrow>
                 (case read_length r1 of
                    None \<Rightarrow> None
                  | Some (k, r2) \<Rightarrow>
                      (case read_sorts fuel k t1 r2 of
                         None \<Rightarrow> None
                       | Some (args, r3, t3) \<Rightarrow>
                           (case read_length r3 of
                              None \<Rightarrow> None
                            | Some (m, r4) \<Rightarrow>
                                (case read_sorts fuel m t3 r4 of
                                   None \<Rightarrow> None
                                 | Some (fargs, r5, t5) \<Rightarrow>
                                     (case read_sort_option fuel t5 r5 of
                                        None \<Rightarrow> None
                                      | Some (so, r6, t6) \<Rightarrow>
                                          Some (KORESymbol n args fargs so, r6, t6)))))))
          else None)"

fun read_pattern ::
    "nat \<Rightarrow> name list \<Rightarrow> byte list \<Rightarrow> (pattern \<times> byte list \<times> name list) option"
  and read_patterns ::
    "nat \<Rightarrow> nat \<Rightarrow> name list \<Rightarrow> byte list \<Rightarrow> (pattern list \<times> byte list \<times> name list) option"
  where
  "read_pattern 0 tbl bs = None"
| "read_pattern (Suc fuel) tbl [] = None"
| "read_pattern (Suc fuel) tbl (t # r) =
     (if t = 4 then
        (case read_symbol fuel tbl r of
           None \<Rightarrow> None
         | Some (symb, r1, t1) \<Rightarrow>
             (case read_length r1 of
                None \<Rightarrow> None
              | Some (k, r2) \<Rightarrow>
                  (case read_patterns fuel k t1 r2 of
                     None \<Rightarrow> None
                   | Some (args, r3, t3) \<Rightarrow> Some (CompositePattern symb args, r3, t3))))
      else if t = 9 then
        (case read_string tbl r of
           None \<Rightarrow> None
         | Some (n, r1, t1) \<Rightarrow>
             (case read_sort fuel t1 r1 of
                None \<Rightarrow> None
              | Some (s, r2, t2) \<Rightarrow> Some (VariablePattern n s, r2, t2)))
      else if t = 5 then
        (case read_length r of
           None \<Rightarrow> None
         | Some (n, r1) \<Rightarrow>
             if length r1 < n then None
             else Some (StringPattern (take n r1), drop n r1, tbl))
      else None)"
| "read_patterns fuel 0 tbl bs = Some ([], bs, tbl)"
| "read_patterns fuel (Suc k) tbl bs =
     (case read_pattern fuel tbl bs of
        None \<Rightarrow> None
      | Some (p, r1, t1) \<Rightarrow>
          (case read_patterns fuel k t1 r1 of
             None \<Rightarrow> None
           | Some (ps, r2, t2) \<Rightarrow> Some (p # ps, r2, t2)))"

text \<open>
  Modelled from the spec: \<open>kllvm::detail::read(begin, end, version)\<close>, the entry point of
  the body decoder. The slice is one pattern body, read with a fresh table of names and
  used up to its last byte.
\<close>

definition detail_read_impl :: "byte list \<Rightarrow> binary_version \<Rightarrow> string + pattern" where
  "detail_read_impl body version =
     (case read_pattern (length body) [] body of
        None \<Rightarrow> Inl ''malformed pattern body''
      | Some (p, rest, tbl) \<Rightarrow> if rest = [] then Inr p else Inl ''bytes left after the pattern'')"

definition kllvm_lib :: "pattern kllvm" where
  "kllvm_lib =
     \<lparr>magic_header = magic_header_impl,
      read_version = read_version_impl,
      read_pattern_size_unchecked = read_pattern_size_unchecked_impl,
      detail_read = detail_read_impl\<rparr>"

subsection \<open>The serializer and Pattern.serialize\<close>

text \<open>
  Modelled from the spec: the class \<open>serializer\<close> (serializer.h is not among the sources).
  A fresh serializer holds the magic header, the version 1.2.0 it writes and an 8-byte
  size field of zeros, and an empty table of names. \<open>serialize_to\<close> appends the body.
  \<open>correct_emitted_size\<close> writes the length of the body into the size field that is
  already in the buffer.
\<close>

record serializer =
  buffer :: "byte list"
  intern_table :: "name list"

definition serializer_init :: serializer where
  "serializer_init =
     \<lparr>buffer = magic_header_impl @ emit_version (binary_version 1 2 0) @ to_bytes 0,
      intern_table = []\<rparr>"

definition serialize_to :: "pattern \<Rightarrow> serializer \<Rightarrow> serializer" where
  "serialize_to p out =
     (case emit_pattern (intern_table out) p of
        (b, t) \<Rightarrow> \<lparr>buffer = buffer out @ b, intern_table = t\<rparr>)"

definition correct_emitted_size :: "serializer \<Rightarrow> serializer" where
  "correct_emitted_size out =
     out\<lparr>buffer := take 11 (buffer out) @ to_bytes (of_nat (length (buffer out) - 19))
                       @ drop 19 (buffer out)\<rparr>"

definition byte_string :: "serializer \<Rightarrow> byte list" where
  "byte_string out = buffer out"

text \<open>Lines 289-301, the lambda bound as \<open>Pattern.serialize\<close>.\<close>

definition serialize :: "pattern \<Rightarrow> bool \<Rightarrow> byte list" where
  "serialize p emit_size =
     (let out = serialize_to p serializer_init;
          out = (if emit_size then correct_emitted_size out else out)
      in byte_string out)"

text \<open>The body of a pattern as a fresh serializer writes it.\<close>

definition pattern_body :: "pattern \<Rightarrow> byte list" where
  "pattern_body p = fst (emit_pattern [] p)"

subsection \<open>The whole-buffer deserializer and Pattern.deserialize\<close>

text \<open>
  Modelled from the spec: \<open>strip_raw_term\<close> (deserializer.h is not among the sources).
  The spec speaks of an embedded raw-representation payload that the flag has decoded to
  its structured form or left as it is, and leaves its shape open. Here a raw term is an
  application of the symbol \<open>rawTerm\<close> to one argument, and stripping returns the argument.
\<close>

definition is_raw_term :: "pattern \<Rightarrow> bool" where
  "is_raw_term p =
     (case p of
        CompositePattern symb [arg] \<Rightarrow> symbol_name symb = bytes_of ''rawTerm''
      | _ \<Rightarrow> False)"

definition strip_raw_term :: "pattern \<Rightarrow> pattern" where
  "strip_raw_term p =
     (case p of
        CompositePattern symb [arg] \<Rightarrow>
          if symbol_name symb = bytes_of ''rawTerm'' then arg else p
      | _ \<Rightarrow> p)"

text \<open>
  Modelled from the spec: \<open>deserialize_pattern(begin, end, strip_raw_term)\<close>. The buffer
  starts with the magic header and the version; from version 1.2.0 on the size field
  follows. The body is the next \<open>size\<close> bytes, or the rest of the buffer when the size is
  zero or the version has no size field. The major version must be 1.
\<close>

definition deserialize_pattern :: "byte list \<Rightarrow> bool \<Rightarrow> string + pattern" where
  "deserialize_pattern bytes strip =
     (if take 5 bytes \<noteq> magic_header_impl then Inl ''bad magic header''
      else
        (case read_version_impl (take 6 (drop 5 bytes)) of
           Inl msg \<Rightarrow> Inl msg
         | Inr version \<Rightarrow>
             if v_major version \<noteq> 1 then Inl ''unsupported version''
             else
               (case (if version_less version (binary_version 1 2 0)
                      then Inr (0, drop 11 bytes)
                      else (case read_pattern_size_unchecked_impl (take 8 (drop 11 bytes)) of
                              Inl msg \<Rightarrow> Inl msg
                            | Inr sz \<Rightarrow> Inr (sz, drop 19 bytes))) of
                  Inl msg \<Rightarrow> Inl msg
                | Inr (sz, rest) \<Rightarrow>
                    if length rest < unat sz then Inl ''truncated pattern body''
                    else
                      (case detail_read_impl (if sz = 0 then rest else take (unat sz) rest)
                              version of
                         Inl msg \<Rightarrow> Inl msg
                       | Inr p \<Rightarrow> Inr (if strip then strip_raw_term p else p)))))"

text \<open>Lines 302-310, the lambda bound as \<open>Pattern.deserialize\<close>.\<close>

definition deserialize :: "byte list \<Rightarrow> bool \<Rightarrow> error + pattern" where
  "deserialize bytes strip =
     (case deserialize_pattern bytes strip of
        Inl msg \<Rightarrow> Inl (decoder_error msg)
      | Inr p \<Rightarrow> Inr p)"

text \<open>\<open>Pattern.read_from\<close> (line 311) is \<open>read_pattern_from_file\<close> over the library.\<close>

definition read_from :: "'s file_like \<Rightarrow> (error + pattern) \<times> 's" where
  "read_from file_like = read_pattern_from_file kllvm_lib file_like"

subsection \<open>Example values\<close>

text \<open>
  Patterns and streams on which the properties below are evaluated: a sort, a string pattern, an
  application \<open>f(X, "a")\<close> whose symbol carries argument sorts, a formal argument and a
  sort, an injection \<open>inj("a")\<close> and the application of \<open>rawTerm\<close> to it. \<open>stream_size_200\<close> is a framed
  string pattern whose size field says 200 while only 3 body bytes follow;
  \<open>chunks_short_header\<close> is what a source delivers that hands out 3 bytes of the magic
  header, then the version, a size field of 10 and a body of 3 bytes.
\<close>

definition sort_S :: sort where
  "sort_S = CompositeSort (bytes_of ''S'') (ValueType MInt 32) []"

definition pattern_string_a :: pattern where
  "pattern_string_a = StringPattern (bytes_of ''a'')"

definition pattern_f :: pattern where
  "pattern_f =
     CompositePattern
       (KORESymbol (bytes_of ''f'') [sort_S] [SortVariable (bytes_of ''T'')] (Some sort_S))
       [VariablePattern (bytes_of ''X'') sort_S, pattern_string_a]"



definition stream_size_200 :: "byte list" where
  "stream_size_200 =
     [0x7F, 0x4B, 0x4F, 0x52, 0x45] @ [1, 0, 2, 0, 0, 0] @ [200, 0, 0, 0, 0, 0, 0, 0]
       @ [5, 1, 97]"

definition chunks_short_header :: "byte list list" where
  "chunks_short_header =
     [[0x7F, 0x4B, 0x4F], [1, 0, 2, 0, 0, 0], [10, 0, 0, 0, 0, 0, 0, 0], [5, 1, 97]]"

section \<open>Properties of read_pattern_from_file\<close>

lemma std_equal_same_length:
  "length xs = length ys \<Longrightarrow> std_equal xs ys = Some (xs = ys)"
  by (induction xs ys rule: list_induct2) auto

lemma std_equal_refl: "std_equal xs xs = Some True"
  by (simp add: std_equal_same_length)

lemma std_equal_prefix: "std_equal xs (xs @ ys) = Some True"
  by (induction xs) auto

lemma errors_distinct:
  "bad_magic_header \<noteq> unsupported_version"
  "bad_magic_header \<noteq> missing_size"
  "unsupported_version \<noteq> missing_size"
  "not_file_like \<noteq> bad_magic_header"
  "not_file_like \<noteq> unsupported_version"
  "not_file_like \<noteq> missing_size"
  by (simp_all add: bad_magic_header_def unsupported_version_def missing_size_def
      not_file_like_def)

lemma bytes_io_read_BytesIO:
  "bytes_io_read \<lparr>buf = bs, pos = k\<rparr> n =
     (take n (drop k bs), \<lparr>buf = bs, pos = min (k + n) (length bs)\<rparr>)"
  by (simp add: bytes_io_read_def)

lemma read_version_impl_110:
  "read_version_impl [1, 0, 1, 0, 0, 0] = Inr (binary_version 1 1 0)"
  by (simp add: read_version_impl_def read_int16_def)

lemma read_version_impl_120:
  "read_version_impl [1, 0, 2, 0, 0, 0] = Inr (binary_version 1 2 0)"
  by (simp add: read_version_impl_def read_int16_def)

lemma read_size_zero: "read_pattern_size_unchecked_impl [0, 0, 0, 0, 0, 0, 0, 0] = Inr 0"
  by (simp add: read_pattern_size_unchecked_impl_def from_bytes_def)

lemma serialize_string_a_no_size:
  "serialize (StringPattern [97]) False =
     [0x7F, 0x4B, 0x4F, 0x52, 0x45, 1, 0, 2, 0, 0, 0, 0, 0, 0, 0, 0, 0, 0, 0, 5, 1, 97]"
  by code_simp

subsection \<open>An argument that is not file-like\<close>

text \<open>
  Claim C10. For an argument with no \<open>read\<close> attribute, \<open>read_from\<close> fails with the
  \<open>TypeError\<close> of line 75, whatever the library is, and leaves the object as it was: no
  read is issued. The error is none of the three \<open>std::invalid_argument\<close> errors of the
  header, version and size checks.
\<close>

theorem read_from_not_file_like:
  assumes "read_attr f = None"
  shows "read_pattern_from_file L f =
           (Inl (type_error ''Argument to read_from is not a file-like object''), py_state f)
         \<and> not_file_like \<notin> {bad_magic_header, unsupported_version, missing_size}"
  using assms
  by (simp add: read_pattern_from_file_def not_file_like_def bad_magic_header_def
      unsupported_version_def missing_size_def)

theorem read_from_not_file_like_witness:
  "read_attr (NotFileLike (0::nat)) = None
   \<and> read_from (NotFileLike (0::nat)) =
       (Inl (type_error ''Argument to read_from is not a file-like object''), 0)"
  using read_from_not_file_like [of "NotFileLike (0::nat)" kllvm_lib]
  by (simp add: NotFileLike_def read_from_def)

subsection \<open>The magic header\<close>

text \<open>
  Claim C4. When the first read returns five bytes that are not the magic constant,
  \<open>read_from\<close> fails with the bad-header error of line 86 (the spec's \<open>FormatError\<close>), and
  the source is left in the state that one \<open>read(5)\<close> put it in: no further read is issued,
  so no more than five bytes are consumed.
\<close>

theorem read_from_bad_magic:
  assumes "read_attr f = Some rd"
    and "rd (py_state f) 5 = (header, s1)"
    and "length header = 5" and "length (magic_header L) = 5"
    and "header \<noteq> magic_header L"
  shows "read_pattern_from_file L f = (Inl bad_magic_header, s1)"
  using assms
  by (simp add: read_pattern_from_file_def std_equal_same_length)

theorem read_from_bad_magic_witness:
  "read_from (BytesIO [0x7F, 0x4B, 0x4F, 0x52, 0x46, 1, 0, 2, 0, 0, 0]) =
     (Inl bad_magic_header, \<lparr>buf = [0x7F, 0x4B, 0x4F, 0x52, 0x46, 1, 0, 2, 0, 0, 0], pos = 5\<rparr>)"
  using read_from_bad_magic [of "BytesIO [0x7F, 0x4B, 0x4F, 0x52, 0x46, 1, 0, 2, 0, 0, 0]"
      bytes_io_read "[0x7F, 0x4B, 0x4F, 0x52, 0x46]"
      "\<lparr>buf = [0x7F, 0x4B, 0x4F, 0x52, 0x46, 1, 0, 2, 0, 0, 0], pos = 5\<rparr>" kllvm_lib]
  by (simp add: BytesIO_def read_from_def bytes_io_read_BytesIO kllvm_lib_def magic_header_impl_def)

subsection \<open>The version gate\<close>

text \<open>
  Claim C5. On a stream that starts with the magic header and whose six version bytes
  decode to a version \<open>v\<close>: if \<open>v\<close> is below 1.2.0, \<open>read_from\<close> fails with the version error
  of line 96 (the spec's \<open>UnsupportedVersionError\<close>) after the second read, whatever
  follows in the stream; if \<open>v\<close> is 1.2.0 or above, \<open>read_from\<close> does not fail with that
  error.
\<close>

theorem read_from_version_gate:
  assumes "read_attr f = Some rd"
    and "rd (py_state f) 5 = (magic_header L, s1)"
    and "rd s1 6 = (vb, s2)"
    and "read_version L vb = Inr v"
  shows "if version_less v (binary_version 1 2 0)
         then read_pattern_from_file L f = (Inl unsupported_version, s2)
         else fst (read_pattern_from_file L f) \<noteq> Inl unsupported_version"
  using assms
  by (auto simp add: read_pattern_from_file_def std_equal_refl unsupported_version_def
      missing_size_def split: prod.splits sum.splits)

theorem read_from_version_gate_witness:
  "read_from (BytesIO ([0x7F, 0x4B, 0x4F, 0x52, 0x45] @ [1, 0, 1, 0, 0, 0]
                         @ [3, 0, 0, 0, 0, 0, 0, 0] @ [5, 1, 97])) =
     (Inl unsupported_version,
      \<lparr>buf = [0x7F, 0x4B, 0x4F, 0x52, 0x45] @ [1, 0, 1, 0, 0, 0]
                @ [3, 0, 0, 0, 0, 0, 0, 0] @ [5, 1, 97], pos = 11\<rparr>)
   \<and> fst (read_from (BytesIO ([0x7F, 0x4B, 0x4F, 0x52, 0x45] @ [1, 0, 2, 0, 0, 0]
                         @ [3, 0, 0, 0, 0, 0, 0, 0] @ [5, 1, 97]))) \<noteq> Inl unsupported_version"
  using read_from_version_gate [of
      "BytesIO ([0x7F, 0x4B, 0x4F, 0x52, 0x45] @ [1, 0, 1, 0, 0, 0]
                  @ [3, 0, 0, 0, 0, 0, 0, 0] @ [5, 1, 97])"
      bytes_io_read kllvm_lib
      "\<lparr>buf = [0x7F, 0x4B, 0x4F, 0x52, 0x45] @ [1, 0, 1, 0, 0, 0]
                @ [3, 0, 0, 0, 0, 0, 0, 0] @ [5, 1, 97], pos = 5\<rparr>"
      "[1, 0, 1, 0, 0, 0]"
      "\<lparr>buf = [0x7F, 0x4B, 0x4F, 0x52, 0x45] @ [1, 0, 1, 0, 0, 0]
                @ [3, 0, 0, 0, 0, 0, 0, 0] @ [5, 1, 97], pos = 11\<rparr>"
      "binary_version 1 1 0"]
    read_from_version_gate [of
      "BytesIO ([0x7F, 0x4B, 0x4F, 0x52, 0x45] @ [1, 0, 2, 0, 0, 0]
                  @ [3, 0, 0, 0, 0, 0, 0, 0] @ [5, 1, 97])"
      bytes_io_read kllvm_lib
      "\<lparr>buf = [0x7F, 0x4B, 0x4F, 0x52, 0x45] @ [1, 0, 2, 0, 0, 0]
                @ [3, 0, 0, 0, 0, 0, 0, 0] @ [5, 1, 97], pos = 5\<rparr>"
      "[1, 0, 2, 0, 0, 0]"
      "\<lparr>buf = [0x7F, 0x4B, 0x4F, 0x52, 0x45] @ [1, 0, 2, 0, 0, 0]
                @ [3, 0, 0, 0, 0, 0, 0, 0] @ [5, 1, 97], pos = 11\<rparr>"
      "binary_version 1 2 0"]
  by (simp add: BytesIO_def read_from_def bytes_io_read_BytesIO kllvm_lib_def
      magic_header_impl_def read_version_impl_110 read_version_impl_120 version_less_def)

subsection \<open>The size field\<close>

text \<open>
  Claim C6. On a stream that starts with the magic header, carries a version that is not
  below 1.2.0 and a size field that decodes to zero, \<open>read_from\<close> fails with the size error
  of line 106 (the spec's \<open>MissingSizeError\<close>). The source is left where the third read
  put it, so no body is read, and the outcome is the same whatever the body decoder \<open>d\<close>
  is: it is never called.
\<close>

theorem read_from_zero_size:
  assumes "read_attr f = Some rd"
    and "rd (py_state f) 5 = (magic_header L, s1)"
    and "rd s1 6 = (vb, s2)"
    and "read_version L vb = Inr v"
    and "\<not> version_less v (binary_version 1 2 0)"
    and "rd s2 8 = (sb, s3)"
    and "read_pattern_size_unchecked L sb = Inr 0"
  shows "read_pattern_from_file (L\<lparr>detail_read := d\<rparr>) f = (Inl missing_size, s3)"
  using assms
  by (simp add: read_pattern_from_file_def std_equal_refl)

theorem read_from_zero_size_witness:
  "read_from (BytesIO (serialize (StringPattern [97]) False)) =
     (Inl missing_size, \<lparr>buf = serialize (StringPattern [97]) False, pos = 19\<rparr>)"
  using read_from_zero_size [of "BytesIO (serialize (StringPattern [97]) False)"
      bytes_io_read kllvm_lib
      "\<lparr>buf = serialize (StringPattern [97]) False, pos = 5\<rparr>"
      "[1, 0, 2, 0, 0, 0]"
      "\<lparr>buf = serialize (StringPattern [97]) False, pos = 11\<rparr>"
      "binary_version 1 2 0"
      "[0, 0, 0, 0, 0, 0, 0, 0]"
      "\<lparr>buf = serialize (StringPattern [97]) False, pos = 19\<rparr>"
      detail_read_impl]
  by (simp add: BytesIO_def read_from_def bytes_io_read_BytesIO kllvm_lib_def
      magic_header_impl_def read_version_impl_120 read_size_zero version_less_def
      serialize_string_a_no_size)

section \<open>The codec reads back what it writes\<close>

text \<open>
  Each reader undoes its writer: on the bytes a writer produced from a table of names,
  followed by any other bytes, the reader started with the same table returns the value,
  those other bytes and the table the writer ended with. For the recursive readers the
  fuel has to cover the length of the bytes written.
\<close>

subsection \<open>Lengths, names and sorts\<close>

lemma unat_byte_small: "n < 256 \<Longrightarrow> unat (of_nat n :: byte) = n"
  by (simp add: unat_of_nat)

lemma read_emit_length: "read_length (emit_length n @ rest) = Some (n, rest)"
proof (induction n rule: emit_length.induct)
  case (1 n)
  show ?case
  proof (cases "n < 128")
    case True
    then have "unat (of_nat n :: byte) = n" by (simp add: unat_byte_small)
    with True show ?thesis by (subst emit_length.simps) simp
  next
    case False
    have u: "unat (of_nat (n mod 128 + 128) :: byte) = n mod 128 + 128"
      by (rule unat_byte_small) (simp add: less_le_trans [OF mod_less_divisor])
    have "read_length (emit_length (n div 128) @ rest) = Some (n div 128, rest)"
      using 1 False by simp
    with False u show ?thesis
      by (subst emit_length.simps) simp
  qed
qed

lemma index_of_Some: "index_of x xs = Some i \<Longrightarrow> i < length xs \<and> xs ! i = x"
  by (induction xs arbitrary: i) (auto split: if_splits)

lemma read_emit_string:
  "emit_string tbl s = (b, t) \<Longrightarrow> read_string tbl (b @ rest) = Some (s, rest, t)"
proof (cases "index_of s tbl")
  case None
  assume "emit_string tbl s = (b, t)"
  with None have "b = 1 # emit_length (length s) @ s" "t = tbl @ [s]"
    by (simp_all add: emit_string_def)
  then show ?thesis
    by (simp add: read_string_def read_emit_length)
next
  case (Some i)
  assume "emit_string tbl s = (b, t)"
  with Some have "b = 2 # emit_length i" "t = tbl"
    by (simp_all add: emit_string_def)
  moreover from Some have "i < length tbl" "tbl ! i = s"
    using index_of_Some by fastforce+
  ultimately show ?thesis
    by (simp add: read_string_def read_emit_length)
qed

lemma read_category_byte: "read_category (category_byte c) = Some c"
  by (cases c) (simp_all add: read_category_def)

lemma length_le_bytes: "length (le_bytes k n) = k"
  by (induction k arbitrary: n) auto

lemma le_nat_le_bytes: "le_nat (le_bytes k n) = n mod 256 ^ k"
proof (induction k arbitrary: n)
  case 0
  then show ?case by simp
next
  case (Suc k)
  have "le_nat (le_bytes (Suc k) n) = n mod 256 + 256 * (n div 256 mod 256 ^ k)"
    by (simp add: Suc unat_of_nat)
  also have "\<dots> = n mod (256 * 256 ^ k)"
    by (simp add: mod_mult2_eq)
  finally show ?case by simp
qed

lemma length_to_bytes: "length (to_bytes w) = 8"
  by (simp add: to_bytes_def length_le_bytes)

lemma from_bytes_to_bytes: "from_bytes (to_bytes w) = w"
proof -
  have "unat w mod 256 ^ 8 = unat w"
    using unsigned_less [of w, where ?'a = nat] by simp
  then show ?thesis
    by (simp add: from_bytes_def to_bytes_def le_nat_le_bytes)
qed

lemma read_emit_value_type: "read_value_type (emit_value_type vt @ rest) = Some (vt, rest)"
  by (simp add: read_value_type_def emit_value_type_def read_category_byte length_to_bytes
      from_bytes_to_bytes)

lemma read_emit_sort:
  "emit_sort tbl s = (b, t) \<Longrightarrow> length b \<le> fuel \<Longrightarrow>
     read_sort fuel tbl (b @ rest) = Some (s, rest, t)"
  "emit_sorts tbl ss = (b, t) \<Longrightarrow> length b \<le> fuel \<Longrightarrow>
     read_sorts fuel (length ss) tbl (b @ rest) = Some (ss, rest, t)"
proof (induction tbl s and tbl ss arbitrary: b t fuel rest and b t fuel rest
    rule: emit_sort_emit_sorts.induct)
  case (1 tbl n)
  obtain b1 t1 where e: "emit_string tbl n = (b1, t1)" by (cases "emit_string tbl n")
  with 1 have b: "b = 6 # b1" "t = t1" by simp_all
  with 1 obtain f where f: "fuel = Suc f" by (cases fuel) auto
  show ?case
    by (simp add: b f read_emit_string [OF e])
next
  case (2 tbl n vt args)
  obtain b1 t1 where e1: "emit_string tbl n = (b1, t1)" by (cases "emit_string tbl n")
  obtain b2 t2 where e2: "emit_sorts t1 args = (b2, t2)" by (cases "emit_sorts t1 args")
  from 2(2) e1 e2 have b: "b = 7 # b1 @ emit_value_type vt @ emit_length (length args) @ b2"
    and t: "t = t2" by simp_all
  with 2(3) obtain f where f: "fuel = Suc f" and fb: "length b2 \<le> f" by (cases fuel) auto
  have "read_sorts f (length args) t1 (b2 @ rest) = Some (args, rest, t2)"
    using 2(1) [OF e1 [symmetric] e2 fb] .
  then show ?case
    by (simp add: b t f read_emit_string [OF e1] read_emit_value_type read_emit_length)
next
  case (3 tbl)
  then show ?case by simp
next
  case (4 tbl s ss)
  obtain b1 t1 where e1: "emit_sort tbl s = (b1, t1)" by (cases "emit_sort tbl s")
  obtain b2 t2 where e2: "emit_sorts t1 ss = (b2, t2)" by (cases "emit_sorts t1 ss")
  from 4(3) e1 e2 have b: "b = b1 @ b2" and t: "t = t2" by simp_all
  with 4(4) have f1: "length b1 \<le> fuel" and f2: "length b2 \<le> fuel" by simp_all
  have r1: "read_sort fuel tbl (b1 @ b2 @ rest) = Some (s, b2 @ rest, t1)"
    using 4(1) [OF e1 f1] .
  have r2: "read_sorts fuel (length ss) t1 (b2 @ rest) = Some (ss, rest, t2)"
    using 4(2) [OF e1 [symmetric] e2 f2] .
  show ?case
    by (simp add: b t r1 r2)
qed

subsection \<open>Symbols and patterns\<close>

lemma read_emit_sort_option:
  assumes "emit_sort_option tbl so = (b, t)" and "length b \<le> fuel"
  shows "read_sort_option fuel tbl (b @ rest) = Some (so, rest, t)"
proof (cases so)
  case None
  with assms show ?thesis
    by (auto simp add: emit_sort_option_def read_sort_option_def)
next
  case (Some s)
  obtain b1 t1 where e: "emit_sort tbl s = (b1, t1)" by (cases "emit_sort tbl s")
  with assms Some have b: "b = 1 # b1" "t = t1" and f: "length b1 \<le> fuel"
    by (auto simp add: emit_sort_option_def)
  show ?thesis
    by (simp add: b Some read_sort_option_def read_emit_sort(1) [OF e f])
qed

lemma read_emit_symbol:
  assumes "emit_symbol tbl symb = (b, t)" and "length b \<le> fuel"
  shows "read_symbol fuel tbl (b @ rest) = Some (symb, rest, t)"
proof -
  obtain n args fargs so where symb: "symb = KORESymbol n args fargs so" by (cases symb)
  obtain b1 t1 where e1: "emit_string tbl n = (b1, t1)" by (cases "emit_string tbl n")
  obtain b2 t2 where e2: "emit_sorts t1 args = (b2, t2)" by (cases "emit_sorts t1 args")
  obtain b3 t3 where e3: "emit_sorts t2 fargs = (b3, t3)" by (cases "emit_sorts t2 fargs")
  obtain b4 t4 where e4: "emit_sort_option t3 so = (b4, t4)"
    by (cases "emit_sort_option t3 so")
  from assms(1) have b: "b = 8 # b1 @ emit_length (length args) @ b2
      @ emit_length (length fargs) @ b3 @ b4" and t: "t = t4"
    by (simp_all add: emit_symbol_def symb e1 e2 e3 e4)
  with assms(2) have f2: "length b2 \<le> fuel" and f3: "length b3 \<le> fuel"
    and f4: "length b4 \<le> fuel" by simp_all
  show ?thesis
    by (simp add: b t symb read_symbol_def read_emit_string [OF e1] read_emit_length
        read_emit_sort(2) [OF e2 f2] read_emit_sort(2) [OF e3 f3]
        read_emit_sort_option [OF e4 f4])
qed

lemma read_emit_pattern:
  "emit_pattern tbl p = (b, t) \<Longrightarrow> length b \<le> fuel \<Longrightarrow>
     read_pattern fuel tbl (b @ rest) = Some (p, rest, t)"
  "emit_patterns tbl ps = (b, t) \<Longrightarrow> length b \<le> fuel \<Longrightarrow>
     read_patterns fuel (length ps) tbl (b @ rest) = Some (ps, rest, t)"
proof (induction tbl p and tbl ps arbitrary: b t fuel rest and b t fuel rest
    rule: emit_pattern_emit_patterns.induct)
  case (1 tbl symb args)
  obtain b1 t1 where e1: "emit_symbol tbl symb = (b1, t1)" by (cases "emit_symbol tbl symb")
  obtain b2 t2 where e2: "emit_patterns t1 args = (b2, t2)"
    by (cases "emit_patterns t1 args")
  from 1(2) e1 e2 have b: "b = 4 # b1 @ emit_length (length args) @ b2" and t: "t = t2"
    by simp_all
  with 1(3) obtain f where f: "fuel = Suc f" and f1: "length b1 \<le> f"
    and f2: "length b2 \<le> f" by (cases fuel) auto
  have "read_patterns f (length args) t1 (b2 @ rest) = Some (args, rest, t2)"
    using 1(1) [OF e1 [symmetric] e2 f2] .
  then show ?case
    by (simp add: b t f read_emit_symbol [OF e1 f1] read_emit_length)
next
  case (2 tbl n s)
  obtain b1 t1 where e1: "emit_string tbl n = (b1, t1)" by (cases "emit_string tbl n")
  obtain b2 t2 where e2: "emit_sort t1 s = (b2, t2)" by (cases "emit_sort t1 s")
  from 2(1) e1 e2 have b: "b = 9 # b1 @ b2" and t: "t = t2" by simp_all
  with 2(2) obtain f where f: "fuel = Suc f" and f2: "length b2 \<le> f"
    by (cases fuel) auto
  show ?case
    by (simp add: b t f read_emit_string [OF e1] read_emit_sort(1) [OF e2 f2])
next
  case (3 tbl c)
  then obtain f where f: "fuel = Suc f" by (cases fuel) auto
  from 3 show ?case
    by (auto simp add: f read_emit_length)
next
  case (4 tbl)
  then show ?case by simp
next
  case (5 tbl p ps)
  obtain b1 t1 where e1: "emit_pattern tbl p = (b1, t1)" by (cases "emit_pattern tbl p")
  obtain b2 t2 where e2: "emit_patterns t1 ps = (b2, t2)" by (cases "emit_patterns t1 ps")
  from 5(3) e1 e2 have b: "b = b1 @ b2" and t: "t = t2" by simp_all
  with 5(4) have f1: "length b1 \<le> fuel" and f2: "length b2 \<le> fuel" by simp_all
  have r1: "read_pattern fuel tbl (b1 @ b2 @ rest) = Some (p, b2 @ rest, t1)"
    using 5(1) [OF e1 f1] .
  have r2: "read_patterns fuel (length ps) t1 (b2 @ rest) = Some (ps, rest, t2)"
    using 5(2) [OF e1 [symmetric] e2 f2] .
  show ?case
    by (simp add: b t r1 r2)
qed

lemma detail_read_pattern_body: "detail_read_impl (pattern_body p) v = Inr p"
proof -
  obtain b t where e: "emit_pattern [] p = (b, t)" by (cases "emit_pattern [] p")
  have "read_pattern (length b) [] (b @ []) = Some (p, [], t)"
    by (rule read_emit_pattern(1) [OF e]) simp
  with e show ?thesis
    by (simp add: detail_read_impl_def pattern_body_def)
qed

subsection \<open>Framing\<close>

lemma emit_version_120: "emit_version (binary_version 1 2 0) = [1, 0, 2, 0, 0, 0]"
  by code_simp

lemma length_magic: "length magic_header_impl = 5"
  by (simp add: magic_header_impl_def)

lemma serialize_with_size:
  "serialize p True =
     magic_header_impl @ [1, 0, 2, 0, 0, 0] @ to_bytes (of_nat (length (pattern_body p)))
       @ pattern_body p"
proof -
  obtain b t where e: "emit_pattern [] p = (b, t)" by (cases "emit_pattern [] p")
  have i: "buffer serializer_init = magic_header_impl @ [1, 0, 2, 0, 0, 0] @ to_bytes 0"
    by (simp add: serializer_init_def emit_version_120)
  have s: "buffer (serialize_to p serializer_init) =
      (magic_header_impl @ [1, 0, 2, 0, 0, 0] @ to_bytes 0) @ b"
    using e by (simp add: serialize_to_def i) (simp add: serializer_init_def)
  have "serialize p True = buffer (correct_emitted_size (serialize_to p serializer_init))"
    by (simp add: serialize_def byte_string_def Let_def)
  also have "\<dots> = (magic_header_impl @ [1, 0, 2, 0, 0, 0]) @ to_bytes (of_nat (length b)) @ b"
    unfolding correct_emitted_size_def
    by (simp add: s length_magic length_to_bytes)
  finally show ?thesis
    using e by (simp add: pattern_body_def)
qed

lemma pattern_body_nonempty: "0 < length (pattern_body p)"
  by (cases p) (auto simp: pattern_body_def split: prod.splits)

lemma unat_size: "n < 2 ^ 64 \<Longrightarrow> unat (of_nat n :: 64 word) = n"
  by (simp add: unat_of_nat)

lemma size_nonzero:
  assumes "length (pattern_body p) < 2 ^ 64"
  shows "(of_nat (length (pattern_body p)) :: 64 word) \<noteq> 0"
proof
  assume "(of_nat (length (pattern_body p)) :: 64 word) = 0"
  then have "unat (of_nat (length (pattern_body p)) :: 64 word) = 0" by simp
  with assms have "length (pattern_body p) = 0" by (simp only: unat_size)
  with pattern_body_nonempty [of p] show False by simp
qed

lemma read_size_to_bytes:
  "read_pattern_size_unchecked_impl (to_bytes w) = Inr w"
  by (simp add: read_pattern_size_unchecked_impl_def length_to_bytes from_bytes_to_bytes)

lemma version_120_not_less: "\<not> version_less (binary_version 1 2 0) (binary_version 1 2 0)"
  by (simp add: version_less_def)

lemma serialize_parts:
  "take 5 (serialize p True @ rest) = magic_header_impl"
  "take 6 (drop 5 (serialize p True @ rest)) = [1, 0, 2, 0, 0, 0]"
  "take 8 (drop 11 (serialize p True @ rest)) = to_bytes (of_nat (length (pattern_body p)))"
  "drop 19 (serialize p True @ rest) = pattern_body p @ rest"
  by (simp_all add: serialize_with_size length_magic length_to_bytes)

lemma length_serialize: "length (serialize p True) = 19 + length (pattern_body p)"
  by (simp add: serialize_with_size length_magic length_to_bytes)

lemma serialize_parts_whole:
  "take 5 (serialize p True) = magic_header_impl"
  "take 6 (drop 5 (serialize p True)) = [1, 0, 2, 0, 0, 0]"
  "take 8 (drop 11 (serialize p True)) = to_bytes (of_nat (length (pattern_body p)))"
  "drop 19 (serialize p True) = pattern_body p"
  using serialize_parts [of p "[]"] by simp_all

lemma deserialize_pattern_serialize:
  assumes "length (pattern_body p) < 2 ^ 64"
  shows "deserialize_pattern (serialize p True) strip =
           Inr (if strip then strip_raw_term p else p)"
proof -
  let ?sz = "of_nat (length (pattern_body p)) :: 64 word"
  have u: "unat ?sz = length (pattern_body p)" using assms by (rule unat_size)
  have nz: "?sz \<noteq> 0" using assms by (rule size_nonzero)
  note parts = serialize_parts_whole [of p]
  show ?thesis
    by (simp add: deserialize_pattern_def parts
        read_version_impl_120 version_120_not_less read_size_to_bytes u nz
        detail_read_pattern_body)
qed

subsection \<open>Reading a framed pattern from a BytesIO\<close>

text \<open>
  The path of \<open>read_pattern_from_file\<close> on which every check passes, and what it gives on
  a \<open>BytesIO\<close> whose cursor stands at the start of a framed pattern.
\<close>

lemma read_pattern_from_file_success:
  assumes "read_attr f = Some rd"
    and "rd (py_state f) 5 = (header, s1)"
    and "std_equal header (magic_header L) = Some True"
    and "rd s1 6 = (vb, s2)"
    and "read_version L vb = Inr v"
    and "\<not> version_less v (binary_version 1 2 0)"
    and "rd s2 8 = (sb, s3)"
    and "read_pattern_size_unchecked L sb = Inr sz"
    and "sz \<noteq> 0"
    and "rd s3 (unat sz) = (pb, s4)"
    and "detail_read L pb v = Inr p"
  shows "read_pattern_from_file L f = (Inr p, s4)"
  using assms by (simp add: read_pattern_from_file_def)

lemma delivers_bytes_io: "delivers bytes_io_read bytes_io_content"
  by (auto simp add: delivers_def bytes_io_read_def bytes_io_content_def min_def add.commute)

lemma delivers_read:
  assumes "delivers rd content" and "content s = xs @ ys" and "length xs = n"
  shows "\<exists>s'. rd s n = (xs, s') \<and> content s' = ys"
proof -
  from assms(1) have "fst (rd s n) = take n (content s)"
    and "content (snd (rd s n)) = drop n (content s)"
    by (simp_all add: delivers_def)
  with assms(2,3) have "fst (rd s n) = xs" and "content (snd (rd s n)) = ys" by simp_all
  then show ?thesis by (metis prod.collapse)
qed

lemma read_from_delivered:
  assumes rd: "read_attr f = Some rd" and del: "delivers rd content"
    and at: "content (py_state f) = serialize p True @ rest"
    and len: "length (pattern_body p) < 2 ^ 64"
  shows "fst (read_from f) = Inr p \<and> content (snd (read_from f)) = rest"
proof -
  let ?n = "length (pattern_body p)"
  let ?sz = "of_nat ?n :: 64 word"
  let ?V = "[1, 0, 2, 0, 0, 0] :: byte list"
  have u: "unat ?sz = ?n" using len by (rule unat_size)
  have nz: "?sz \<noteq> 0" using len by (rule size_nonzero)
  have c0: "content (py_state f) =
      magic_header_impl @ (?V @ to_bytes ?sz @ pattern_body p @ rest)"
    using at by (simp add: serialize_with_size)
  obtain s1 where r1: "rd (py_state f) 5 = (magic_header_impl, s1)"
    and c1: "content s1 = ?V @ (to_bytes ?sz @ pattern_body p @ rest)"
    using delivers_read [OF del c0 length_magic] by blast
  have "length ?V = 6" by simp
  from delivers_read [OF del c1 this]
  obtain s2 where r2: "rd s1 6 = (?V, s2)"
    and c2: "content s2 = to_bytes ?sz @ (pattern_body p @ rest)" by blast
  from delivers_read [OF del c2 length_to_bytes]
  obtain s3 where r3: "rd s2 8 = (to_bytes ?sz, s3)"
    and c3: "content s3 = pattern_body p @ rest" by blast
  from delivers_read [OF del c3 u [symmetric]]
  obtain s4 where r4: "rd s3 (unat ?sz) = (pattern_body p, s4)"
    and c4: "content s4 = rest" by blast
  have "read_pattern_from_file kllvm_lib f = (Inr p, s4)"
  proof (rule read_pattern_from_file_success)
    show "read_attr f = Some rd" by (rule rd)
    show "rd (py_state f) 5 = (magic_header_impl, s1)" by (rule r1)
    show "std_equal magic_header_impl (magic_header kllvm_lib) = Some True"
      by (simp add: kllvm_lib_def std_equal_refl)
    show "rd s1 6 = (?V, s2)" by (rule r2)
    show "read_version kllvm_lib ?V = Inr (binary_version 1 2 0)"
      by (simp add: kllvm_lib_def read_version_impl_120)
    show "\<not> version_less (binary_version 1 2 0) (binary_version 1 2 0)"
      by (rule version_120_not_less)
    show "rd s2 8 = (to_bytes ?sz, s3)" by (rule r3)
    show "read_pattern_size_unchecked kllvm_lib (to_bytes ?sz) = Inr ?sz"
      by (simp add: kllvm_lib_def read_size_to_bytes)
    show "?sz \<noteq> 0" by (rule nz)
    show "rd s3 (unat ?sz) = (pattern_body p, s4)" by (rule r4)
    show "detail_read kllvm_lib (pattern_body p) (binary_version 1 2 0) = Inr p"
      by (simp add: kllvm_lib_def detail_read_pattern_body)
  qed
  with c4 show ?thesis by (simp add: read_from_def)
qed

lemma bytes_io_content_BytesIO: "bytes_io_content (py_state (BytesIO bs)) = bs"
  by (simp add: bytes_io_content_def BytesIO_def)

lemma read_attr_BytesIO: "read_attr (BytesIO bs) = Some bytes_io_read"
  by (simp add: BytesIO_def)

subsection \<open>The example values evaluated\<close>

lemma strip_raw_term_id: "\<not> is_raw_term p \<Longrightarrow> strip_raw_term p = p"
  by (auto simp: is_raw_term_def strip_raw_term_def split: pattern.splits list.splits)

lemma deserialize_serialize:
  assumes "length (pattern_body p) < 2 ^ 64"
  shows "deserialize (serialize p True) strip = Inr (if strip then strip_raw_term p else p)"
  by (simp add: deserialize_def deserialize_pattern_serialize [OF assms])

lemma pattern_body_f: "length (pattern_body pattern_f) = 60"
  by code_simp




lemma pattern_body_string_a: "pattern_body pattern_string_a = [5, 1, 97]"
  by code_simp

lemma not_raw_f: "\<not> is_raw_term pattern_f"
  by code_simp

lemma read_size_200: "read_pattern_size_unchecked_impl [200, 0, 0, 0, 0, 0, 0, 0] = Inr 200"
  by (simp add: read_pattern_size_unchecked_impl_def from_bytes_def)

lemma read_size_10: "read_pattern_size_unchecked_impl [10, 0, 0, 0, 0, 0, 0, 0] = Inr 10"
  by (simp add: read_pattern_size_unchecked_impl_def from_bytes_def)

lemma detail_read_string_a: "detail_read_impl [5, 1, 97] v = Inr pattern_string_a"
  using detail_read_pattern_body [of pattern_string_a v]
  by (simp add: pattern_body_string_a)

subsection \<open>Round trip through the whole buffer\<close>

text \<open>
  Claim C1. For every pattern \<open>p\<close> whose body fits the 8-byte size field,
  \<open>deserialize(serialize(p, emit_size=true))\<close> gives back \<open>p\<close> with
  \<open>strip_raw_term=false\<close>; with \<open>strip_raw_term=true\<close> it gives \<open>p\<close> with its raw-term
  wrapper stripped, which is \<open>p\<close> itself whenever \<open>p\<close> is not a raw term.
\<close>

theorem serialize_deserialize_round_trip:
  assumes "length (pattern_body p) < 2 ^ 64"
  shows "deserialize (serialize p True) False = Inr p
         \<and> deserialize (serialize p True) True = Inr (strip_raw_term p)
         \<and> (\<not> is_raw_term p \<longrightarrow> deserialize (serialize p True) True = Inr p)"
  using assms by (simp add: deserialize_serialize strip_raw_term_id)

theorem serialize_deserialize_round_trip_witness:
  "length (pattern_body pattern_f) < 2 ^ 64 \<and> \<not> is_raw_term pattern_f
   \<and> deserialize (serialize pattern_f True) False = Inr pattern_f
   \<and> deserialize (serialize pattern_f True) True = Inr pattern_f"
  using serialize_deserialize_round_trip [of pattern_f]
  by (auto simp add: pattern_body_f not_raw_f)

subsection \<open>Streaming read against whole-buffer read\<close>

text \<open>
  What \<open>read_from\<close> does on a framed pattern. Let a source deliver
  \<open>serialize(p, emit_size=true)\<close> followed by bytes \<open>rest\<close>, the bodies of \<open>p\<close> and \<open>q\<close>
  fitting the size field. Then \<open>read_from\<close> yields \<open>p\<close>, which is what \<open>deserialize\<close> with
  \<open>strip_raw_term=false\<close> yields on the buffer, and what it yields under the default
  \<open>strip_raw_term=true\<close> when \<open>p\<close> is not a raw term; the source is left with exactly
  \<open>rest\<close> to deliver; and when \<open>rest\<close> starts with the framed bytes of \<open>q\<close>, a second
  \<open>read_from\<close> on the same object yields \<open>q\<close> and leaves what follows them.
\<close>

theorem read_from_exact_source:
  assumes "read_attr f = Some rd" and "delivers rd content"
    and "content (py_state f) = serialize p True @ rest"
    and "length (pattern_body p) < 2 ^ 64" and "length (pattern_body q) < 2 ^ 64"
  shows "fst (read_from f) = Inr p
         \<and> fst (read_from f) = deserialize (serialize p True) False
         \<and> (\<not> is_raw_term p \<longrightarrow> fst (read_from f) = deserialize (serialize p True) True)
         \<and> content (snd (read_from f)) = rest
         \<and> (rest = serialize q True @ rest' \<longrightarrow>
              fst (read_from (f\<lparr>py_state := snd (read_from f)\<rparr>)) = Inr q
              \<and> content (snd (read_from (f\<lparr>py_state := snd (read_from f)\<rparr>))) = rest')"
proof -
  have first: "fst (read_from f) = Inr p \<and> content (snd (read_from f)) = rest"
    using assms(1-4) by (rule read_from_delivered)
  have second: "fst (read_from (f\<lparr>py_state := snd (read_from f)\<rparr>)) = Inr q
      \<and> content (snd (read_from (f\<lparr>py_state := snd (read_from f)\<rparr>))) = rest'"
    if "rest = serialize q True @ rest'"
  proof (rule read_from_delivered [OF _ assms(2) _ assms(5)])
    show "read_attr (f\<lparr>py_state := snd (read_from f)\<rparr>) = Some rd"
      using assms(1) by simp
    show "content (py_state (f\<lparr>py_state := snd (read_from f)\<rparr>)) = serialize q True @ rest'"
      using first that by simp
  qed
  from first second show ?thesis
    using assms(4) by (simp add: deserialize_serialize strip_raw_term_id)
qed

theorem read_from_exact_source_witness:
  "delivers bytes_io_read bytes_io_content
   \<and> length (pattern_body pattern_f) < 2 ^ 64 \<and> length (pattern_body pattern_string_a) < 2 ^ 64
   \<and> \<not> is_raw_term pattern_f
   \<and> fst (read_from (BytesIO (serialize pattern_f True @ serialize pattern_string_a True))) =
       Inr pattern_f
   \<and> deserialize (serialize pattern_f True) True = Inr pattern_f
   \<and> bytes_io_content
        (snd (read_from (BytesIO (serialize pattern_f True @ serialize pattern_string_a True)))) =
       serialize pattern_string_a True
   \<and> fst (read_from
        ((BytesIO (serialize pattern_f True @ serialize pattern_string_a True))
           \<lparr>py_state :=
              snd (read_from
                (BytesIO (serialize pattern_f True @ serialize pattern_string_a True)))\<rparr>)) =
       Inr pattern_string_a"
  using read_from_exact_source [of
      "BytesIO (serialize pattern_f True @ serialize pattern_string_a True)"
      bytes_io_read bytes_io_content pattern_f "serialize pattern_string_a True"
      pattern_string_a "[]"]
  by (auto simp add: delivers_bytes_io bytes_io_content_BytesIO read_attr_BytesIO
      pattern_body_f pattern_body_string_a not_raw_f)


subsection \<open>Short reads\<close>

text \<open>
  Claim C3, as amended. \<open>read_from\<close> has no short-read error and compares the length of
  no read with what it asked for: the bytes that the version, size and body reads return
  go as they are to \<open>read_version\<close>, \<open>read_pattern_size_unchecked\<close> and \<open>detail::read\<close>.
  When the header read returns the magic constant and these accept what they are given
  (a version not below 1.2.0, a size other than zero, a body), \<open>read_from\<close> returns the
  decoded pattern, however many bytes each read returned.
\<close>

theorem read_from_checks_no_length:
  assumes "read_attr f = Some rd"
    and "rd (py_state f) 5 = (magic_header L, s1)"
    and "rd s1 6 = (vb, s2)"
    and "read_version L vb = Inr v"
    and "\<not> version_less v (binary_version 1 2 0)"
    and "rd s2 8 = (sb, s3)"
    and "read_pattern_size_unchecked L sb = Inr sz"
    and "sz \<noteq> 0"
    and "rd s3 (unat sz) = (pb, s4)"
    and "detail_read L pb v = Inr p"
  shows "read_pattern_from_file L f = (Inr p, s4)"
  using assms by (simp add: read_pattern_from_file_def std_equal_refl)

theorem read_from_checks_no_length_witness:
  "length (fst (bytes_io_read \<lparr>buf = stream_size_200, pos = 19\<rparr> 200)) = 3
   \<and> read_from (BytesIO stream_size_200) =
       (Inr pattern_string_a, \<lparr>buf = stream_size_200, pos = 22\<rparr>)"
  using read_from_checks_no_length [of "BytesIO stream_size_200" bytes_io_read kllvm_lib
      "\<lparr>buf = stream_size_200, pos = 5\<rparr>" "[1, 0, 2, 0, 0, 0]"
      "\<lparr>buf = stream_size_200, pos = 11\<rparr>" "binary_version 1 2 0"
      "[200, 0, 0, 0, 0, 0, 0, 0]" "\<lparr>buf = stream_size_200, pos = 19\<rparr>" 200
      "[5, 1, 97]" "\<lparr>buf = stream_size_200, pos = 22\<rparr>" pattern_string_a]
  by (simp add: BytesIO_def read_from_def bytes_io_read_BytesIO kllvm_lib_def
      magic_header_impl_def read_version_impl_120 version_less_def read_size_200
      detail_read_string_a stream_size_200_def)

text \<open>
  The claim as stated fails: a source that hands out three bytes of the header on the
  first read and three body bytes where ten were asked for is read without error.
\<close>

theorem read_from_short_read_counterexample:
  "fst (chunk_read chunks_short_header 5) = [0x7F, 0x4B, 0x4F]
   \<and> read_from (Chunked chunks_short_header) = (Inr pattern_string_a, [])"
  by (simp add: chunks_short_header_def read_from_def read_pattern_from_file_def Chunked_def
      kllvm_lib_def magic_header_impl_def read_version_impl_120 version_less_def read_size_10
      detail_read_string_a)

end
